theory Spec2Isabelle
  imports Main
begin

section \<open>Data model of \<open>src/api/dependencies.py\<close>\<close>

text \<open>
  The request shape read by the validator is
  \<open>request.message.toolCalls[i].{id, function.{name, arguments}}\<close>.
  The classes \<open>VapiRequest\<close> and \<open>ValidatedToolCall\<close> live in modules that are only
  imported here; the records below carry exactly the attributes this file reads or
  writes, typed as in the request shape of the spec's external interfaces
  (\<open>toolCalls\<close> a sequence, \<open>id\<close>, \<open>name\<close> and \<open>arguments\<close> strings). The
  attributes \<open>id\<close> and \<open>function\<close> are spelled \<open>id_tc\<close> and \<open>function_tc\<close>,
  since the plain words are taken in Isabelle.
\<close>

record ToolCallFunction =
  name :: string
  arguments :: string

record ToolCall =
  id_tc :: string
  function_tc :: ToolCallFunction

record Message =
  toolCalls :: "ToolCall list"

record VapiRequest =
  message :: Message

record 'a ValidatedToolCall =
  tool_call_id :: string
  args :: 'a

text \<open>
  Exceptions, split the way the \<open>try\<close> statement of \<open>validate_dependency\<close> tells them
  apart: FastAPI's \<open>HTTPException\<close> with its status code and detail, pydantic's
  \<open>ValidationError\<close>, every other subclass of Python's \<open>Exception\<close>, and the
  exceptions that derive from \<open>BaseException\<close> without deriving from \<open>Exception\<close>
  (\<open>SystemExit\<close>, \<open>KeyboardInterrupt\<close>), which no \<open>except\<close> clause of the file
  names. The string carried by the last three is \<open>str(e)\<close>.
\<close>

datatype exn =
    is_HTTPException: HTTPException (status_code: int) (detail: string)
  | is_ValidationError: ValidationError string
  | is_OtherException: OtherException string
  | is_BaseException: BaseException string

text \<open>
  What the validator does besides returning: it logs, it calls the imported helper
  \<open>parse_json_args\<close> and it evaluates the expression \<open>args_model(**args_dict)\<close>
  (event \<open>Args_model\<close>, recorded whether the expression fails while unpacking or in
  the class). The events are recorded in the order in which the code performs them.
\<close>

datatype 'j event =
    Logger_info string
  | Logger_error string
  | Parse_json_args string
  | Args_model 'j

section \<open>The tool-call validator\<close>

text \<open>
  The helper \<open>parse_json_args\<close> is imported from \<open>src.utils.helpers\<close> and the schema
  class \<open>args_model\<close> is an argument of \<open>get_validated_tool_call\<close>; both are
  parameters of the model. \<open>parse_json_args s\<close> is the outcome of the call
  \<open>parse_json_args(s)\<close> and \<open>args_model d\<close> the outcome of the whole expression
  \<open>args_model(**d)\<close>: either may raise any exception (\<open>Inl\<close>) or return (\<open>Inr\<close>).
\<close>

definition expected_detail :: "string \<Rightarrow> string" where
  "expected_detail function_name =
     ''Invalid Request: Expected '' @ [CHR 0x27] @ function_name @ [CHR 0x27] @ '' function call''"

text \<open>Lines 43--49: the body of the \<open>if\<close> inside the loop, run on the matched tool call.\<close>

definition matched_tool_call ::
  "(string \<Rightarrow> exn + 'j) \<Rightarrow> ('j \<Rightarrow> exn + 'a) \<Rightarrow> ToolCall
     \<Rightarrow> 'j event list \<times> (exn + 'a ValidatedToolCall)" where
  "matched_tool_call parse_json_args args_model tool_call =
     (case parse_json_args (arguments (function_tc tool_call)) of
        Inl e \<Rightarrow> ([Parse_json_args (arguments (function_tc tool_call))], Inl e)
      | Inr args_dict \<Rightarrow>
          (case args_model args_dict of
             Inl e \<Rightarrow>
               ([Parse_json_args (arguments (function_tc tool_call)), Args_model args_dict], Inl e)
           | Inr validated_args \<Rightarrow>
               ([Parse_json_args (arguments (function_tc tool_call)), Args_model args_dict],
                Inr \<lparr>tool_call_id = id_tc tool_call, args = validated_args\<rparr>)))"

text \<open>
  Lines 41--53: the \<open>for\<close> loop over \<open>request.message.toolCalls\<close> with its \<open>return\<close>
  inside, and the \<open>raise HTTPException(status_code=400, ...)\<close> that follows the loop.
\<close>

fun scan_tool_calls ::
  "(string \<Rightarrow> exn + 'j) \<Rightarrow> ('j \<Rightarrow> exn + 'a) \<Rightarrow> string \<Rightarrow> ToolCall list
     \<Rightarrow> 'j event list \<times> (exn + 'a ValidatedToolCall)" where
  "scan_tool_calls parse_json_args args_model function_name [] =
     ([], Inl (HTTPException 400 (expected_detail function_name)))"
| "scan_tool_calls parse_json_args args_model function_name (tool_call # rest) =
     (if name (function_tc tool_call) = function_name
      then matched_tool_call parse_json_args args_model tool_call
      else scan_tool_calls parse_json_args args_model function_name rest)"

text \<open>
  Lines 54--64: the three \<open>except\<close> clauses, in the source's order, applied to what the
  \<open>try\<close> block produced. An exception outside \<open>Exception\<close> matches none of them and
  leaves the function as it is, without a log line.
\<close>

fun except_clauses ::
  "string \<Rightarrow> 'j event list \<times> (exn + 'v) \<Rightarrow> 'j event list \<times> (exn + 'v)" where
  "except_clauses function_name (evs, Inr v) = (evs, Inr v)"
| "except_clauses function_name (evs, Inl (HTTPException s d)) = (evs, Inl (HTTPException s d))"
| "except_clauses function_name (evs, Inl (ValidationError e)) =
     (evs @ [Logger_error (''Validation error for '' @ function_name @ '': '' @ e)],
      Inl (HTTPException 422 (''Invalid arguments for '' @ function_name @ '': '' @ e)))"
| "except_clauses function_name (evs, Inl (OtherException e)) =
     (evs @ [Logger_error (''Unexpected error validating '' @ function_name @ '': '' @ e)],
      Inl (HTTPException 500 e))"
| "except_clauses function_name (evs, Inl (BaseException e)) = (evs, Inl (BaseException e))"

definition validate_dependency ::
  "(string \<Rightarrow> exn + 'j) \<Rightarrow> ('j \<Rightarrow> exn + 'a) \<Rightarrow> string \<Rightarrow> VapiRequest
     \<Rightarrow> 'j event list \<times> (exn + 'a ValidatedToolCall)" where
  "validate_dependency parse_json_args args_model function_name request =
     (case except_clauses function_name
             (scan_tool_calls parse_json_args args_model function_name
                (toolCalls (message request))) of
        (evs, r) \<Rightarrow>
          (Logger_info (''Validating tool call for function: '' @ function_name) # evs, r))"

definition get_validated_tool_call ::
  "(string \<Rightarrow> exn + 'j) \<Rightarrow> string \<Rightarrow> ('j \<Rightarrow> exn + 'a) \<Rightarrow> VapiRequest
     \<Rightarrow> 'j event list \<times> (exn + 'a ValidatedToolCall)" where
  "get_validated_tool_call parse_json_args function_name args_model =
     validate_dependency parse_json_args args_model function_name"

section \<open>Sample collaborators\<close>

text \<open>
  A parser and a schema to run the validator on concrete requests: the parser knows the
  two argument strings of the documented examples and fails on anything else the way a
  JSON decoder does; the schema \<open>TaskArgs\<close> requires the field \<open>title\<close>.
\<close>

record TaskArgs =
  title :: string

definition example_parse_json_args :: "string \<Rightarrow> exn + (string \<times> string) list" where
  \<open>example_parse_json_args s =
     (if s = ''{"title":"buy milk"}'' then Inr [(''title'', ''buy milk'')]
      else if s = ''{}'' then Inr []
      else Inl (OtherException ''Expecting value: line 1 column 1 (char 0)''))\<close>

definition TaskArgs_model :: "(string \<times> string) list \<Rightarrow> exn + TaskArgs" where
  "TaskArgs_model args_dict =
     (case map_of args_dict ''title'' of
        None \<Rightarrow> Inl (ValidationError ''1 validation error for TaskArgs: title: Field required'')
      | Some t \<Rightarrow> Inr \<lparr>title = t\<rparr>)"

text \<open>
  A parser that answers malformed input with an \<open>HTTPException\<close> of its own, a schema
  class whose construction raises one, and a schema class whose construction raises
  \<open>SystemExit(3)\<close>.
\<close>

definition http_parse_json_args :: "string \<Rightarrow> exn + (string \<times> string) list" where
  "http_parse_json_args s =
     (if s = ''{}'' then Inr [] else Inl (HTTPException 400 ''Invalid JSON in arguments''))"



definition tool_call :: "string \<Rightarrow> string \<Rightarrow> string \<Rightarrow> ToolCall" where
  "tool_call i n a = \<lparr>id_tc = i, function_tc = \<lparr>name = n, arguments = a\<rparr>\<rparr>"

definition request_of :: "ToolCall list \<Rightarrow> VapiRequest" where
  "request_of tcs = \<lparr>message = \<lparr>toolCalls = tcs\<rparr>\<rparr>"

text \<open>The strings handed to \<open>parse_json_args\<close>, read off the recorded events.\<close>

fun parsed_arguments :: "'j event list \<Rightarrow> string list" where
  "parsed_arguments [] = []"
| "parsed_arguments (Parse_json_args s # evs) = s # parsed_arguments evs"
| "parsed_arguments (_ # evs) = parsed_arguments evs"

text \<open>The values handed to the schema class, read off the recorded events.\<close>

fun validated_values :: "'j event list \<Rightarrow> 'j list" where
  "validated_values [] = []"
| "validated_values (Args_model d # evs) = d # validated_values evs"
| "validated_values (_ # evs) = validated_values evs"

section \<open>The session provider and the repository factories\<close>

text \<open>
  Modelled from the spec: \<open>SessionLocal\<close> is imported from \<open>src.models.base\<close> and
  \<open>Session\<close> from the ORM; the session layer is consumed through the interface
  "\<open>open() -> Session\<close>, \<open>close(Session) -> void\<close>". A session is identified by the
  order in which \<open>SessionLocal()\<close> created it, and the world records the calls made on
  the session layer: \<open>SessionLocal()\<close> and \<open>db.close()\<close>.
\<close>

type_synonym Session = nat

datatype db_event = Opened Session | Closed Session

record world =
  fresh :: nat
  db_events :: "db_event list"

definition SessionLocal :: "world \<Rightarrow> Session \<times> world" where
  "SessionLocal w =
     (fresh w, w\<lparr>fresh := Suc (fresh w), db_events := db_events w @ [Opened (fresh w)]\<rparr>)"

definition close :: "Session \<Rightarrow> world \<Rightarrow> world" where
  "close db w = w\<lparr>db_events := db_events w @ [Closed db]\<rparr>"

text \<open>
  \<open>get_db\<close> is an asynchronous generator. Its control state is where it stands: not
  yet started, suspended at the \<open>yield db\<close> inside the \<open>try\<close>, or finished. Whoever
  holds the generator resumes it with \<open>__anext__\<close>, throws an exception into it with
  \<open>athrow\<close>, or closes it with \<open>aclose\<close> (which throws \<open>GeneratorExit\<close> at the
  \<open>yield\<close>). The awaited call yields a session, ends with \<open>StopAsyncIteration\<close>,
  raises, or returns \<open>None\<close>; on a finished generator \<open>athrow\<close> returns \<open>None\<close>,
  as CPython's asynchronous generators do.
\<close>

datatype gen_state = Created | Suspended Session | Finished

datatype gen_op = Anext | Athrow exn | Aclose

datatype gen_result = Yield Session | StopAsyncIteration | Raise exn | Returned_None

fun get_db :: "gen_op \<Rightarrow> gen_state \<times> world \<Rightarrow> gen_result \<times> gen_state \<times> world" where
  "get_db Anext (Created, w) = (case SessionLocal w of (db, w') \<Rightarrow> (Yield db, Suspended db, w'))"
| "get_db (Athrow e) (Created, w) = (Raise e, Finished, w)"
| "get_db Aclose (Created, w) = (Returned_None, Finished, w)"
| "get_db Anext (Suspended db, w) = (StopAsyncIteration, Finished, close db w)"
| "get_db (Athrow e) (Suspended db, w) = (Raise e, Finished, close db w)"
| "get_db Aclose (Suspended db, w) = (Returned_None, Finished, close db w)"
| "get_db Anext (Finished, w) = (StopAsyncIteration, Finished, w)"
| "get_db (Athrow e) (Finished, w) = (Returned_None, Finished, w)"
| "get_db Aclose (Finished, w) = (Returned_None, Finished, w)"

text \<open>A sequence of operations on one generator object, in order.\<close>

fun drive_get_db :: "gen_op list \<Rightarrow> gen_state \<times> world \<Rightarrow> gen_state \<times> world" where
  "drive_get_db [] gw = gw"
| "drive_get_db (op # ops) gw = drive_get_db ops (snd (get_db op gw))"

text \<open>
  Modelled from the spec: the classes \<open>TodoRepository\<close>, \<open>ReminderRepository\<close> and
  \<open>CalendarEventRepository\<close> are imported from \<open>src.repositories\<close>; a repository is
  "a thin object bound to exactly one Session; no state beyond that binding".
\<close>

datatype Repository =
    TodoRepository Session
  | ReminderRepository Session
  | CalendarEventRepository Session

fun bound_session :: "Repository \<Rightarrow> Session" where
  "bound_session (TodoRepository db) = db"
| "bound_session (ReminderRepository db) = db"
| "bound_session (CalendarEventRepository db) = db"

text \<open>
  Each factory is a generator with the single statement \<open>yield R(db)\<close>: run to its end
  it yields one value and returns. The model gives the values yielded and the exception
  the run ended with, if any.
\<close>

definition get_todo_repository :: "Session \<Rightarrow> Repository list \<times> exn option" where
  "get_todo_repository db = ([TodoRepository db], None)"

definition get_reminder_repository :: "Session \<Rightarrow> Repository list \<times> exn option" where
  "get_reminder_repository db = ([ReminderRepository db], None)"

definition get_calendar_event_repository :: "Session \<Rightarrow> Repository list \<times> exn option" where
  "get_calendar_event_repository db = ([CalendarEventRepository db], None)"

section \<open>Facts about the scan\<close>

lemmas validator_defs =
  get_validated_tool_call_def validate_dependency_def request_of_def tool_call_def
  matched_tool_call_def example_parse_json_args_def TaskArgs_model_def expected_detail_def

text \<open>The loop returns from the first tool call carrying the target name, if there is one.\<close>

lemma scan_tool_calls_find:
  "scan_tool_calls P S F tcs =
     (case find (\<lambda>tc. name (function_tc tc) = F) tcs of
        None \<Rightarrow> ([], Inl (HTTPException 400 (expected_detail F)))
      | Some tc \<Rightarrow> matched_tool_call P S tc)"
  by (induction tcs) simp_all

lemma matched_tool_call_fields:
  "matched_tool_call P S tc =
     matched_tool_call P S (tool_call (id_tc tc) n (arguments (function_tc tc)))"
  by (simp add: matched_tool_call_def tool_call_def split: sum.splits)

lemma find_filter_Cons: "filter p xs = y # ys \<Longrightarrow> find p xs = Some y"
  by (induction xs) (auto split: if_splits)

lemma find_named_name:
  "find (\<lambda>tc. name (function_tc tc) = F) tcs = Some tc \<Longrightarrow> name (function_tc tc) = F"
  by (auto simp: find_Some_iff)

lemma validate_dependency_find:
  "validate_dependency P S F request =
     (case except_clauses F
        (case find (\<lambda>tc. name (function_tc tc) = F) (toolCalls (message request)) of
           None \<Rightarrow> ([], Inl (HTTPException 400 (expected_detail F)))
         | Some tc \<Rightarrow> matched_tool_call P S tc) of
        (evs, r) \<Rightarrow> (Logger_info (''Validating tool call for function: '' @ F) # evs, r))"
  by (simp add: validate_dependency_def scan_tool_calls_find)

lemma validate_dependency_first:
  assumes "find (\<lambda>tc. name (function_tc tc) = F) (toolCalls (message request)) = Some tc"
  shows "validate_dependency P S F request =
     (case except_clauses F (matched_tool_call P S tc) of
        (evs, r) \<Rightarrow> (Logger_info (''Validating tool call for function: '' @ F) # evs, r))"
  using assms by (simp add: validate_dependency_find)

lemma validate_dependency_none:
  assumes "find (\<lambda>tc. name (function_tc tc) = F) (toolCalls (message request)) = None"
  shows "validate_dependency P S F request =
     ([Logger_info (''Validating tool call for function: '' @ F)],
      Inl (HTTPException 400 (expected_detail F)))"
  using assms by (simp add: validate_dependency_find)

text \<open>What the \<open>except\<close> clauses leave untouched: the calls already made.\<close>

lemma parsed_arguments_append:
  "parsed_arguments (evs @ evs') = parsed_arguments evs @ parsed_arguments evs'"
  by (induction evs rule: parsed_arguments.induct) simp_all

lemma validated_values_append:
  "validated_values (evs @ evs') = validated_values evs @ validated_values evs'"
  by (induction evs rule: validated_values.induct) simp_all

lemma parsed_arguments_except_clauses:
  "parsed_arguments (fst (except_clauses F (evs, r))) = parsed_arguments evs"
  by (cases "(F, (evs, r))" rule: except_clauses.cases) (simp_all add: parsed_arguments_append)

lemma validated_values_except_clauses:
  "validated_values (fst (except_clauses F (evs, r))) = validated_values evs"
  by (cases "(F, (evs, r))" rule: except_clauses.cases) (simp_all add: validated_values_append)

lemma parsed_arguments_matched:
  "parsed_arguments (fst (matched_tool_call P S tc)) = [arguments (function_tc tc)]"
  by (simp add: matched_tool_call_def split: sum.splits)

lemma validated_values_matched:
  "validated_values (fst (matched_tool_call P S tc)) =
     (case P (arguments (function_tc tc)) of Inl e \<Rightarrow> [] | Inr d \<Rightarrow> [d])"
  by (simp add: matched_tool_call_def split: sum.splits)

lemma fst_validate_dependency_first:
  assumes "find (\<lambda>tc. name (function_tc tc) = F) (toolCalls (message request)) = Some tc"
  shows "parsed_arguments (fst (validate_dependency P S F request)) = [arguments (function_tc tc)]"
    and "validated_values (fst (validate_dependency P S F request)) =
           (case P (arguments (function_tc tc)) of Inl e \<Rightarrow> [] | Inr d \<Rightarrow> [d])"
proof -
  obtain evs r where m: "matched_tool_call P S tc = (evs, r)"
    by (cases "matched_tool_call P S tc")
  obtain evs' r' where e: "except_clauses F (evs, r) = (evs', r')"
    by (cases "except_clauses F (evs, r)")
  have v: "validate_dependency P S F request =
             (Logger_info (''Validating tool call for function: '' @ F) # evs', r')"
    using assms m e by (simp add: validate_dependency_first)
  have "parsed_arguments evs' = parsed_arguments evs"
    using parsed_arguments_except_clauses [of F evs r] e by simp
  moreover have "parsed_arguments evs = [arguments (function_tc tc)]"
    using parsed_arguments_matched [of P S tc] m by simp
  ultimately show "parsed_arguments (fst (validate_dependency P S F request)) =
      [arguments (function_tc tc)]"
    using v by simp
  have "validated_values evs' = validated_values evs"
    using validated_values_except_clauses [of F evs r] e by simp
  moreover have "validated_values evs =
      (case P (arguments (function_tc tc)) of Inl e \<Rightarrow> [] | Inr d \<Rightarrow> [d])"
    using validated_values_matched [of P S tc] m by simp
  ultimately show "validated_values (fst (validate_dependency P S F request)) =
      (case P (arguments (function_tc tc)) of Inl e \<Rightarrow> [] | Inr d \<Rightarrow> [d])"
    using v by simp
qed

lemma validate_dependency_first_fields:
  assumes "find (\<lambda>tc. name (function_tc tc) = F) (toolCalls (message request)) = Some tc"
  shows "validate_dependency P S F request =
           validate_dependency P S F
             (request_of [tool_call (id_tc tc) F (arguments (function_tc tc))])"
proof -
  have "validate_dependency P S F
          (request_of [tool_call (id_tc tc) F (arguments (function_tc tc))]) =
        (case except_clauses F
           (matched_tool_call P S (tool_call (id_tc tc) F (arguments (function_tc tc)))) of
           (evs, r) \<Rightarrow> (Logger_info (''Validating tool call for function: '' @ F) # evs, r))"
    by (simp add: validate_dependency_def request_of_def tool_call_def)
  then show ?thesis
    using assms matched_tool_call_fields [of P S tc F]
    by (simp add: validate_dependency_first)
qed

lemma find_named_None:
  "(\<forall>tc \<in> set tcs. name (function_tc tc) \<noteq> F) \<Longrightarrow>
     find (\<lambda>tc. name (function_tc tc) = F) tcs = None"
  by (simp add: find_None_iff)

lemma fst_validate_dependency_none:
  assumes "find (\<lambda>tc. name (function_tc tc) = F) (toolCalls (message request)) = None"
  shows "parsed_arguments (fst (validate_dependency P S F request)) = []"
    and "validated_values (fst (validate_dependency P S F request)) = []"
  using assms by (simp_all add: validate_dependency_none)



section \<open>Successful extraction\<close>

text \<open>
  Claim C1, as written: whenever the request contains some tool call named \<open>F\<close> whose
  arguments parse and validate, the validator returns that tool call's id with the
  validated arguments. It fails when that tool call is not the first one named \<open>F\<close>:
  in the request below the second \<open>create_task\<close> call is valid, but the first, with
  arguments \<open>{}\<close>, is the one the loop returns from, and the outcome is the 422 error.
\<close>

theorem valid_tool_call_not_first_counterexample:
  \<open>tool_call ''2'' ''create_task'' ''{"title":"buy milk"}''
      \<in> set (toolCalls (message (request_of
            [tool_call ''1'' ''create_task'' ''{}'',
             tool_call ''2'' ''create_task'' ''{"title":"buy milk"}''])))
   \<and> name (function_tc (tool_call ''2'' ''create_task'' ''{"title":"buy milk"}'')) = ''create_task''
   \<and> example_parse_json_args
         (arguments (function_tc (tool_call ''2'' ''create_task'' ''{"title":"buy milk"}'')))
       = Inr [(''title'', ''buy milk'')]
   \<and> TaskArgs_model [(''title'', ''buy milk'')] = Inr \<lparr>title = ''buy milk''\<rparr>
   \<and> snd (get_validated_tool_call example_parse_json_args ''create_task'' TaskArgs_model
          (request_of
            [tool_call ''1'' ''create_task'' ''{}'',
             tool_call ''2'' ''create_task'' ''{"title":"buy milk"}'']))
       = Inl (HTTPException 422
           ''Invalid arguments for create_task: 1 validation error for TaskArgs: title: Field required'')\<close>
  by (simp add: validator_defs)

text \<open>
  Claim C1, amended: when the first tool call named \<open>F\<close> in the request has arguments
  that parse (to \<open>d\<close>) and validate against the schema (to \<open>v\<close>), the validator returns
  a \<open>ValidatedToolCall\<close> with that tool call's id and the validated arguments \<open>v\<close>,
  having called the parser and the schema class once each.
\<close>

theorem first_valid_tool_call_returned:
  assumes "find (\<lambda>tc. name (function_tc tc) = F) (toolCalls (message request)) = Some tc"
    and "P (arguments (function_tc tc)) = Inr d"
    and "S d = Inr v"
  shows "get_validated_tool_call P F S request =
           ([Logger_info (''Validating tool call for function: '' @ F),
             Parse_json_args (arguments (function_tc tc)), Args_model d],
            Inr \<lparr>tool_call_id = id_tc tc, args = v\<rparr>)"
  using assms
  by (simp add: get_validated_tool_call_def validate_dependency_first matched_tool_call_def)

text \<open>The documented example: one \<open>create_task\<close> call with a title.\<close>

theorem first_valid_tool_call_returned_witness:
  \<open>get_validated_tool_call example_parse_json_args ''create_task'' TaskArgs_model
      (request_of [tool_call ''1'' ''create_task'' ''{"title":"buy milk"}''])
    = ([Logger_info ''Validating tool call for function: create_task'',
        Parse_json_args ''{"title":"buy milk"}'', Args_model [(''title'', ''buy milk'')]],
       Inr \<lparr>tool_call_id = ''1'', args = \<lparr>title = ''buy milk''\<rparr>\<rparr>)\<close>
  using first_valid_tool_call_returned
    [of "''create_task''"
        \<open>request_of [tool_call ''1'' ''create_task'' ''{"title":"buy milk"}'']\<close>
        \<open>tool_call ''1'' ''create_task'' ''{"title":"buy milk"}''\<close>
        example_parse_json_args "[(''title'', ''buy milk'')]" TaskArgs_model
        "\<lparr>title = ''buy milk''\<rparr>"]
  by (simp add: request_of_def tool_call_def example_parse_json_args_def TaskArgs_model_def)

section \<open>First match wins\<close>

text \<open>
  Claim C2: when the request holds two or more tool calls named \<open>F\<close> (\<open>tc\<close> the first
  of them, \<open>later\<close> the others, in sequence order), the validator's whole outcome is
  the one it has on a request holding a single tool call with the id and the arguments
  of \<open>tc\<close>, so the later ones are ignored; exactly one arguments string, that of
  \<open>tc\<close>, is handed to the parser, and at most one value to the schema class.
\<close>

theorem first_of_several_selected:
  assumes "filter (\<lambda>tc. name (function_tc tc) = F) (toolCalls (message request)) = tc # later"
    and "later \<noteq> []"
  shows "get_validated_tool_call P F S request =
           get_validated_tool_call P F S
             (request_of [tool_call (id_tc tc) F (arguments (function_tc tc))])
       \<and> parsed_arguments (fst (get_validated_tool_call P F S request)) =
           [arguments (function_tc tc)]
       \<and> length (validated_values (fst (get_validated_tool_call P F S request))) \<le> 1"
proof -
  have f: "find (\<lambda>tc. name (function_tc tc) = F) (toolCalls (message request)) = Some tc"
    using assms(1) by (rule find_filter_Cons)
  show ?thesis
    unfolding get_validated_tool_call_def
    using validate_dependency_first_fields [OF f, of P S]
      fst_validate_dependency_first [OF f, of P S]
    by (simp split: sum.splits)
qed

text \<open>Three \<open>create_task\<close> calls behind a \<open>delete_task\<close> call: the one with id 1 is taken.\<close>

theorem first_of_several_selected_witness:
  \<open>get_validated_tool_call example_parse_json_args ''create_task'' TaskArgs_model
      (request_of
         [tool_call ''0'' ''delete_task'' ''not json'',
          tool_call ''1'' ''create_task'' ''{"title":"buy milk"}'',
          tool_call ''2'' ''create_task'' ''{}'',
          tool_call ''3'' ''create_task'' ''not json''])
    = get_validated_tool_call example_parse_json_args ''create_task'' TaskArgs_model
        (request_of [tool_call ''1'' ''create_task'' ''{"title":"buy milk"}''])
   \<and> parsed_arguments (fst (get_validated_tool_call example_parse_json_args ''create_task''
        TaskArgs_model
        (request_of
           [tool_call ''0'' ''delete_task'' ''not json'',
            tool_call ''1'' ''create_task'' ''{"title":"buy milk"}'',
            tool_call ''2'' ''create_task'' ''{}'',
            tool_call ''3'' ''create_task'' ''not json''])))
      = [''{"title":"buy milk"}'']
   \<and> snd (get_validated_tool_call example_parse_json_args ''create_task'' TaskArgs_model
        (request_of
           [tool_call ''0'' ''delete_task'' ''not json'',
            tool_call ''1'' ''create_task'' ''{"title":"buy milk"}'',
            tool_call ''2'' ''create_task'' ''{}'',
            tool_call ''3'' ''create_task'' ''not json'']))
      = Inr \<lparr>tool_call_id = ''1'', args = \<lparr>title = ''buy milk''\<rparr>\<rparr>\<close>
  using first_of_several_selected
    [of "''create_task''"
        \<open>request_of
           [tool_call ''0'' ''delete_task'' ''not json'',
            tool_call ''1'' ''create_task'' ''{"title":"buy milk"}'',
            tool_call ''2'' ''create_task'' ''{}'',
            tool_call ''3'' ''create_task'' ''not json'']\<close>
        \<open>tool_call ''1'' ''create_task'' ''{"title":"buy milk"}''\<close>
        \<open>[tool_call ''2'' ''create_task'' ''{}'', tool_call ''3'' ''create_task'' ''not json'']\<close>
        example_parse_json_args TaskArgs_model]
  by (simp add: validator_defs)

text \<open>
  Claim C9: two requests whose first tool calls named \<open>F\<close> agree on id and arguments
  (or which both have none) get the same outcome, events included. The only string ever
  handed to the parser is the arguments of that first match, and the only value handed to
  the schema class is what the parser returned for it; with no match neither is called.
\<close>

theorem validator_depends_on_first_match_only:
  assumes "map_option (\<lambda>tc. (id_tc tc, arguments (function_tc tc)))
             (find (\<lambda>tc. name (function_tc tc) = F) (toolCalls (message request1)))
         = map_option (\<lambda>tc. (id_tc tc, arguments (function_tc tc)))
             (find (\<lambda>tc. name (function_tc tc) = F) (toolCalls (message request2)))"
  shows "get_validated_tool_call P F S request1 = get_validated_tool_call P F S request2
       \<and> parsed_arguments (fst (get_validated_tool_call P F S request1)) =
           (case find (\<lambda>tc. name (function_tc tc) = F) (toolCalls (message request1)) of
              None \<Rightarrow> []
            | Some tc \<Rightarrow> [arguments (function_tc tc)])
       \<and> validated_values (fst (get_validated_tool_call P F S request1)) =
           (case find (\<lambda>tc. name (function_tc tc) = F) (toolCalls (message request1)) of
              None \<Rightarrow> []
            | Some tc \<Rightarrow>
                (case P (arguments (function_tc tc)) of Inl e \<Rightarrow> [] | Inr d \<Rightarrow> [d]))"
proof (cases "find (\<lambda>tc. name (function_tc tc) = F) (toolCalls (message request1))")
  case None
  then have "find (\<lambda>tc. name (function_tc tc) = F) (toolCalls (message request2)) = None"
    using assms by simp
  then show ?thesis
    using None by (simp add: get_validated_tool_call_def validate_dependency_none)
next
  case (Some tc1)
  then obtain tc2 where
    2: "find (\<lambda>tc. name (function_tc tc) = F) (toolCalls (message request2)) = Some tc2"
    and eq: "id_tc tc1 = id_tc tc2" "arguments (function_tc tc1) = arguments (function_tc tc2)"
    using assms by (cases "find (\<lambda>tc. name (function_tc tc) = F) (toolCalls (message request2))") auto
  have "validate_dependency P S F request1 = validate_dependency P S F request2"
    using validate_dependency_first_fields [OF Some, of P S]
      validate_dependency_first_fields [OF 2, of P S] eq
    by simp
  then show ?thesis
    using Some fst_validate_dependency_first [OF Some, of P S]
    by (simp add: get_validated_tool_call_def)
qed

text \<open>A request and its first \<open>create_task\<close> call alone: same outcome, one string parsed.\<close>

theorem validator_depends_on_first_match_only_witness:
  \<open>get_validated_tool_call example_parse_json_args ''create_task'' TaskArgs_model
      (request_of
         [tool_call ''0'' ''delete_task'' ''not json'',
          tool_call ''1'' ''create_task'' ''{}'',
          tool_call ''2'' ''create_task'' ''{"title":"buy milk"}''])
    = get_validated_tool_call example_parse_json_args ''create_task'' TaskArgs_model
        (request_of [tool_call ''1'' ''create_task'' ''{}''])
   \<and> parsed_arguments (fst (get_validated_tool_call example_parse_json_args ''create_task''
        TaskArgs_model
        (request_of
           [tool_call ''0'' ''delete_task'' ''not json'',
            tool_call ''1'' ''create_task'' ''{}'',
            tool_call ''2'' ''create_task'' ''{"title":"buy milk"}''])))
      = [''{}'']
   \<and> validated_values (fst (get_validated_tool_call example_parse_json_args ''create_task''
        TaskArgs_model
        (request_of
           [tool_call ''0'' ''delete_task'' ''not json'',
            tool_call ''1'' ''create_task'' ''{}'',
            tool_call ''2'' ''create_task'' ''{"title":"buy milk"}''])))
      = [[]]\<close>
  using validator_depends_on_first_match_only
    [of "''create_task''"
        \<open>request_of
           [tool_call ''0'' ''delete_task'' ''not json'',
            tool_call ''1'' ''create_task'' ''{}'',
            tool_call ''2'' ''create_task'' ''{"title":"buy milk"}'']\<close>
        \<open>request_of [tool_call ''1'' ''create_task'' ''{}'']\<close>
        example_parse_json_args TaskArgs_model]
  by (simp add: validator_defs)


section \<open>Failures\<close>

text \<open>
  Claim C3: when no tool call of the request is named \<open>F\<close> (the empty sequence
  included), the validator fails with the \<open>HTTPException\<close> of status 400 whose detail
  is \<open>Invalid Request: Expected 'F' function call\<close>. The parser and the schema class
  are not called, and nothing is logged as an error: the exception leaves through
  \<open>except HTTPException: raise\<close> as it was raised.
\<close>

theorem no_matching_tool_call_400:
  assumes "\<forall>tc \<in> set (toolCalls (message request)). name (function_tc tc) \<noteq> F"
  shows "get_validated_tool_call P F S request =
           ([Logger_info (''Validating tool call for function: '' @ F)],
            Inl (HTTPException 400
              (''Invalid Request: Expected '' @ [CHR 0x27] @ F @ [CHR 0x27] @ '' function call'')))"
  using find_named_None [OF assms]
  by (simp add: get_validated_tool_call_def validate_dependency_none expected_detail_def)

text \<open>The documented example, target \<open>delete_task\<close>, and the request without tool calls.\<close>

theorem no_matching_tool_call_400_witness:
  \<open>get_validated_tool_call example_parse_json_args ''delete_task'' TaskArgs_model
      (request_of [tool_call ''1'' ''create_task'' ''{"title":"buy milk"}''])
    = ([Logger_info ''Validating tool call for function: delete_task''],
       Inl (HTTPException 400
         (''Invalid Request: Expected '' @ [CHR 0x27] @ ''delete_task'' @ [CHR 0x27] @ '' function call'')))
   \<and> get_validated_tool_call example_parse_json_args ''delete_task'' TaskArgs_model (request_of [])
    = ([Logger_info ''Validating tool call for function: delete_task''],
       Inl (HTTPException 400
         (''Invalid Request: Expected '' @ [CHR 0x27] @ ''delete_task'' @ [CHR 0x27] @ '' function call'')))\<close>
  using no_matching_tool_call_400
    [of \<open>request_of [tool_call ''1'' ''create_task'' ''{"title":"buy milk"}'']\<close>
        "''delete_task''" example_parse_json_args TaskArgs_model]
    no_matching_tool_call_400
    [of \<open>request_of []\<close> "''delete_task''" example_parse_json_args TaskArgs_model]
  by (simp add: request_of_def tool_call_def)

text \<open>
  Claim C4: when the arguments of the first tool call named \<open>F\<close> parse, and the schema
  class rejects the parsed value with a \<open>ValidationError\<close> of text \<open>m\<close>, the validator
  fails with the \<open>HTTPException\<close> of status 422 and detail
  \<open>Invalid arguments for F: m\<close>.
\<close>

theorem schema_failure_422:
  assumes "find (\<lambda>tc. name (function_tc tc) = F) (toolCalls (message request)) = Some tc"
    and "P (arguments (function_tc tc)) = Inr d"
    and "S d = Inl (ValidationError m)"
  shows "get_validated_tool_call P F S request =
           ([Logger_info (''Validating tool call for function: '' @ F),
             Parse_json_args (arguments (function_tc tc)), Args_model d,
             Logger_error (''Validation error for '' @ F @ '': '' @ m)],
            Inl (HTTPException 422 (''Invalid arguments for '' @ F @ '': '' @ m)))"
  using assms
  by (simp add: get_validated_tool_call_def validate_dependency_first matched_tool_call_def)

text \<open>The documented example: arguments \<open>{}\<close> against a schema requiring \<open>title\<close>.\<close>

theorem schema_failure_422_witness:
  \<open>get_validated_tool_call example_parse_json_args ''create_task'' TaskArgs_model
      (request_of [tool_call ''1'' ''create_task'' ''{}''])
    = ([Logger_info ''Validating tool call for function: create_task'',
        Parse_json_args ''{}'', Args_model [],
        Logger_error
          ''Validation error for create_task: 1 validation error for TaskArgs: title: Field required''],
       Inl (HTTPException 422
         ''Invalid arguments for create_task: 1 validation error for TaskArgs: title: Field required''))\<close>
  using schema_failure_422
    [of "''create_task''" \<open>request_of [tool_call ''1'' ''create_task'' ''{}'']\<close>
        \<open>tool_call ''1'' ''create_task'' ''{}''\<close> example_parse_json_args "[]" TaskArgs_model
        "''1 validation error for TaskArgs: title: Field required''"]
  by (simp add: request_of_def tool_call_def example_parse_json_args_def TaskArgs_model_def)

text \<open>
  Claim C5, as written: if the parser fails on the arguments of the first tool call named
  \<open>F\<close> with an error that is not a \<open>ValidationError\<close>, the validator fails with
  status 500. It fails for a parser that answers malformed input with an
  \<open>HTTPException\<close>: that exception is caught by \<open>except HTTPException: raise\<close> and
  leaves with its own status.
\<close>

theorem malformed_arguments_http_exception_counterexample:
  "find (\<lambda>tc. name (function_tc tc) = ''create_task'')
      (toolCalls (message (request_of [tool_call ''1'' ''create_task'' ''not json''])))
     = Some (tool_call ''1'' ''create_task'' ''not json'')
   \<and> http_parse_json_args (arguments (function_tc (tool_call ''1'' ''create_task'' ''not json'')))
     = Inl (HTTPException 400 ''Invalid JSON in arguments'')
   \<and> \<not> is_ValidationError (HTTPException 400 ''Invalid JSON in arguments'')
   \<and> snd (get_validated_tool_call http_parse_json_args ''create_task'' TaskArgs_model
          (request_of [tool_call ''1'' ''create_task'' ''not json'']))
     = Inl (HTTPException 400 ''Invalid JSON in arguments'')"
  by (simp add: validator_defs http_parse_json_args_def)

text \<open>
  Claim C5, amended: if the parser fails on the arguments of the first tool call named
  \<open>F\<close> with an error of text \<open>m\<close> that is neither a \<open>ValidationError\<close> nor an
  \<open>HTTPException\<close>, the validator fails with the \<open>HTTPException\<close> of status 500 whose
  detail is \<open>m\<close>; the schema class is not called.
\<close>

theorem malformed_arguments_500:
  assumes "find (\<lambda>tc. name (function_tc tc) = F) (toolCalls (message request)) = Some tc"
    and "P (arguments (function_tc tc)) = Inl (OtherException m)"
  shows "get_validated_tool_call P F S request =
           ([Logger_info (''Validating tool call for function: '' @ F),
             Parse_json_args (arguments (function_tc tc)),
             Logger_error (''Unexpected error validating '' @ F @ '': '' @ m)],
            Inl (HTTPException 500 m))"
  using assms
  by (simp add: get_validated_tool_call_def validate_dependency_first matched_tool_call_def)

text \<open>Arguments that are not JSON, with the sample parser.\<close>

theorem malformed_arguments_500_witness:
  "get_validated_tool_call example_parse_json_args ''create_task'' TaskArgs_model
      (request_of [tool_call ''1'' ''create_task'' ''not json''])
    = ([Logger_info ''Validating tool call for function: create_task'',
        Parse_json_args ''not json'',
        Logger_error
          ''Unexpected error validating create_task: Expecting value: line 1 column 1 (char 0)''],
       Inl (HTTPException 500 ''Expecting value: line 1 column 1 (char 0)''))"
  using malformed_arguments_500
    [of "''create_task''" "request_of [tool_call ''1'' ''create_task'' ''not json'']"
        "tool_call ''1'' ''create_task'' ''not json''" example_parse_json_args
        "''Expecting value: line 1 column 1 (char 0)''" TaskArgs_model]
  by (simp add: request_of_def tool_call_def example_parse_json_args_def)




section \<open>Session provider and repository factories\<close>

lemma drive_get_db_Finished: "drive_get_db ops (Finished, w) = (Finished, w)"
proof (induction ops)
  case Nil
  show ?case by simp
next
  case (Cons op ops)
  then show ?case by (cases op) simp_all
qed

lemma get_db_leave:
  "snd (get_db leave (Suspended db, w)) = (Finished, close db w)"
  by (cases leave) simp_all

text \<open>
  Claim C7: started, \<open>get_db\<close> opens one session and yields it. However the holder then
  leaves the scope (resuming normally, throwing the handler's exception in, or closing
  the generator), and whatever is done to the generator afterwards, the session layer
  has seen exactly one \<open>SessionLocal()\<close> and exactly one \<open>close()\<close>, on that session.
\<close>

theorem get_db_session_closed_once:
  "get_db Anext (Created, w) =
     (Yield (fresh w), Suspended (fresh w),
      w\<lparr>fresh := Suc (fresh w), db_events := db_events w @ [Opened (fresh w)]\<rparr>)
   \<and> drive_get_db (Anext # leave # later) (Created, w) =
     (Finished,
      w\<lparr>fresh := Suc (fresh w),
        db_events := db_events w @ [Opened (fresh w), Closed (fresh w)]\<rparr>)"
  by (simp add: SessionLocal_def get_db_leave drive_get_db_Finished close_def)

text \<open>
  Claim C8: each of the three factories yields exactly one repository, of its own kind,
  built from the session it was given and bound to that session, and ends without an
  exception; it checks nothing.
\<close>

theorem repository_factories_bind_session:
  "get_todo_repository db = ([TodoRepository db], None)
   \<and> get_reminder_repository db = ([ReminderRepository db], None)
   \<and> get_calendar_event_repository db = ([CalendarEventRepository db], None)
   \<and> map bound_session (fst (get_todo_repository db)) = [db]
   \<and> map bound_session (fst (get_reminder_repository db)) = [db]
   \<and> map bound_session (fst (get_calendar_event_repository db)) = [db]"
  by (simp add: get_todo_repository_def get_reminder_repository_def
      get_calendar_event_repository_def)

end
